theory Spec2Isabelle
  imports Complex_Main "HOL-Library.Monad_Syntax"
begin

section \<open>The fitting core of grbLC: parameters, models, afterglow shapes, chi-squared\<close>

text \<open>
  The development embeds \<^verbatim>\<open>grblc/fitting/model.py\<close> and \<^verbatim>\<open>grblc/fitting/models.py\<close>.

  Conventions of the embedding.
  \<^item> A finite \<^verbatim>\<open>float64\<close> is a \<^typ>\<open>real\<close>: arithmetic is exact, so rounding, overflow and
    underflow are not modelled. A numeric result of type \<^typ>\<open>real option\<close> is \<open>Some v\<close> for
    the finite value \<open>v\<close> and \<open>None\<close> when, on finite inputs, numpy yields
    \<^verbatim>\<open>inf\<close>, \<^verbatim>\<open>-inf\<close> or \<^verbatim>\<open>nan\<close> (or Python raises
    \<^verbatim>\<open>ZeroDivisionError\<close>): division by zero, the logarithm of a non-positive number,
    a negative base raised to a fractional power.
  \<^item> A one-dimensional array is a list; the array functions act elementwise.
  \<^item> An exception is a value of \<open>py_error\<close>, returned as \<open>Inl\<close>.
  \<^item> A \<^verbatim>\<open>dict\<close> is an association list in insertion order, as Python iterates it.
\<close>

subsection \<open>Errors, prior bounds, dictionaries\<close>

text \<open>
  \<open>ValueError p m expected\<close> stands for the message of \<^verbatim>\<open>Model.__init__\<close>:
  "\<open>p\<close> is not a valid argument for the \<open>m\<close> model. Expected one of \<open>expected\<close>."
  \<open>AttributeError\<close> is what \<^verbatim>\<open>inspect.getargspec\<close> gives where the interpreter no longer has
  it (Python 3.11 on), \<open>ArgspecError\<close> the \<^verbatim>\<open>ValueError\<close> with which it refuses a function that
  has keyword-only arguments or annotations.
\<close>

datatype py_error =
    ValueError string string "string list"
  | AssertionError
  | KeyError string
  | TypeError
  | BroadcastError
  | AttributeError
  | ArgspecError

text \<open>The bounds of a prior are floats that may be \<^verbatim>\<open>-np.inf\<close> or \<^verbatim>\<open>np.inf\<close>.\<close>

datatype pyfloat = NegInf | Finite real | PosInf

fun float_le :: "pyfloat \<Rightarrow> pyfloat \<Rightarrow> bool" where
  "float_le NegInf _ = True"
| "float_le _ PosInf = True"
| "float_le (Finite a) (Finite b) = (a \<le> b)"
| "float_le _ _ = False"

text \<open>\<^verbatim>\<open>d[k] = v\<close>: an existing key keeps its place and takes the new value, a new key goes last.\<close>

fun dict_set :: "('k \<times> 'v) list \<Rightarrow> 'k \<Rightarrow> 'v \<Rightarrow> ('k \<times> 'v) list" where
  "dict_set [] k v = [(k, v)]"
| "dict_set ((k', v') # d) k v =
     (if k' = k then (k, v) # d else (k', v') # dict_set d k v)"

text \<open>The comprehension \<^verbatim>\<open>{key(a): val(a) for a in xs}\<close>.\<close>

definition dict_comp :: "('a \<Rightarrow> 'k) \<Rightarrow> ('a \<Rightarrow> 'v) \<Rightarrow> 'a list \<Rightarrow> ('k \<times> 'v) list" where
  "dict_comp key val xs = fold (\<lambda>a d. dict_set d (key a) (val a)) xs []"

text \<open>
  Membership of a Python string in a numpy array of \<^verbatim>\<open>dtype=str\<close>, as
  \<^verbatim>\<open>name in func_argspec\<close> computes it: \<^verbatim>\<open>(func_argspec == name).any()\<close>. numpy
  stores strings at a fixed width padded with NUL characters and compares them up to trailing
  NULs, so \<^verbatim>\<open>'T\x00'\<close> is found in an array that holds \<^verbatim>\<open>'T'\<close>.
\<close>

definition strip_nul :: "string \<Rightarrow> string" where
  "strip_nul s = rev (dropWhile (\<lambda>c. c = CHR 0x00) (rev s))"

definition np_str_eq :: "string \<Rightarrow> string \<Rightarrow> bool" where
  "np_str_eq a b = (strip_nul a = strip_nul b)"

definition np_contains :: "string list \<Rightarrow> string \<Rightarrow> bool" where
  "np_contains arr s = list_ex (\<lambda>a. np_str_eq a s) arr"

text \<open>A string that does not end in a NUL character, as every Python identifier.\<close>

definition nul_free :: "string \<Rightarrow> bool" where
  "nul_free s = (strip_nul s = s)"

subsection \<open>Parameter\<close>

record Parameter =
  name :: string
  description :: string
  plot_fmt :: string
  pmin :: pyfloat
  pmax :: pyfloat
  vary :: bool

text \<open>
  \<^verbatim>\<open>Parameter.__init__(name, description, min, max, vary, plot_fmt)\<close>; an omitted
  \<^verbatim>\<open>description\<close> or \<^verbatim>\<open>plot_fmt\<close> is \<open>None\<close>.
\<close>

definition Parameter_init ::
  "string \<Rightarrow> string option \<Rightarrow> pyfloat \<Rightarrow> pyfloat \<Rightarrow> bool \<Rightarrow> string option \<Rightarrow> Parameter" where
  "Parameter_init nm descr lo hi vy fmt =
     \<lparr> name = nm,
       description = (case descr of Some d \<Rightarrow> d
                      | None \<Rightarrow> ''Autogenerated argument from input function.''),
       plot_fmt = (case fmt of Some f \<Rightarrow> f | None \<Rightarrow> nm),
       pmin = lo,
       pmax = hi,
       vary = vy \<rparr>"

text \<open>\<^verbatim>\<open>Parameter(name)\<close>: every other argument at its default.\<close>

definition Parameter_default :: "string \<Rightarrow> Parameter" where
  "Parameter_default nm = Parameter_init nm None NegInf PosInf True None"

subsection \<open>Model\<close>

text \<open>
  A Python callable \<^verbatim>\<open>func(x, *params, **kwargs)\<close>: its \<^verbatim>\<open>__name__\<close>, the positional
  argument names that \<^verbatim>\<open>inspect.getfullargspec(func).args\<close> lists, what a call returns, and
  the exception that the deprecated \<^verbatim>\<open>inspect.getargspec(func)\<close> raises, if any: where it
  raises none it lists the same positional names as \<^verbatim>\<open>getfullargspec\<close>.
\<close>

type_synonym kwargs = "(string \<times> real) list"

record pyfunc =
  func_name :: string
  args :: "string list"
  body :: "real list \<Rightarrow> real list \<Rightarrow> kwargs \<Rightarrow> py_error + real option list"
  getargspec_error :: "py_error option"

record Model =
  func :: pyfunc
  model_name :: string
  slug :: string
  func_args :: "(string \<times> Parameter) list"
  bounds :: "pyfloat list"

text \<open>
  \<^verbatim>\<open>Model.__init__(func, name, slug, func_args, bounds)\<close>. The loop over
  \<^verbatim>\<open>func_args\<close> raises at the first parameter whose name is not in the numpy array
  \<^verbatim>\<open>func_argspec\<close>. With \<^verbatim>\<open>func_args\<close> omitted the names come from
  \<^verbatim>\<open>inspect.getargspec(func).args[1:]\<close>, a call that may raise.
\<close>

definition Model_init ::
  "pyfunc \<Rightarrow> string \<Rightarrow> string \<Rightarrow> Parameter list option \<Rightarrow> pyfloat list option
     \<Rightarrow> py_error + Model" where
  "Model_init f nm sl fargs bnds =
     (let name' = (if nm \<noteq> [] then nm else func_name f);
          slug' = (if sl \<noteq> [] then sl else name');
          func_argspec = drop 1 (args f);
          checked =
            (case fargs of
               Some ps \<Rightarrow>
                 (case find (\<lambda>p. \<not> np_contains func_argspec (name p)) ps of
                    Some p \<Rightarrow> Inl (ValueError (name p) name' func_argspec)
                  | None \<Rightarrow> Inr (dict_comp name (\<lambda>p. p) ps))
             | None \<Rightarrow>
                 (case getargspec_error f of
                    Some e \<Rightarrow> Inl e
                  | None \<Rightarrow> Inr (dict_comp (\<lambda>n. n) Parameter_default (drop 1 (args f)))))
      in case checked of
           Inl e \<Rightarrow> Inl e
         | Inr d \<Rightarrow>
             (case bnds of
                Some b \<Rightarrow>
                  if length b = 4
                  then Inr \<lparr> func = f, model_name = name', slug = slug',
                             func_args = d, bounds = b \<rparr>
                  else Inl AssertionError
              | None \<Rightarrow>
                  Inr \<lparr> func = f, model_name = name', slug = slug',
                        func_args = d, bounds = [NegInf, PosInf, NegInf, PosInf] \<rparr>))"

text \<open>\<^verbatim>\<open>__len__\<close>, \<^verbatim>\<open>__iter__\<close>, \<^verbatim>\<open>__getitem__\<close> and \<^verbatim>\<open>__call__\<close>.\<close>

definition Model_len :: "Model \<Rightarrow> nat" where
  "Model_len m = length (func_args m)"

definition Model_iter :: "Model \<Rightarrow> string list" where
  "Model_iter m = map fst (func_args m)"

definition Model_getitem :: "Model \<Rightarrow> string \<Rightarrow> py_error + Parameter" where
  "Model_getitem m k =
     (case map_of (func_args m) k of Some p \<Rightarrow> Inr p | None \<Rightarrow> Inl (KeyError k))"


subsection \<open>Numeric primitives\<close>

text \<open>\<^verbatim>\<open>np.power(10, a)\<close> and \<^verbatim>\<open>10 ** a\<close>: the base is the positive literal 10.\<close>

definition pow10 :: "real \<Rightarrow> real" where
  "pow10 a = 10 powr a"

text \<open>
  \<^verbatim>\<open>b ** e\<close> for a base that is not a literal. \<^verbatim>\<open>pow(b, 0)\<close> is 1 for every
  \<open>b\<close>; a zero base with a negative exponent gives \<^verbatim>\<open>inf\<close>, a negative base with a fractional
  exponent gives \<^verbatim>\<open>nan\<close>.
\<close>

definition np_power :: "real \<Rightarrow> real \<Rightarrow> real option" where
  "np_power b e =
     (if e = 0 then Some 1
      else if 0 < b then Some (b powr e)
      else if b = 0 then (if 0 < e then Some 0 else None)
      else if of_int \<lfloor>e\<rfloor> = e
        then Some ((if even \<lfloor>e\<rfloor> then 1 else - 1) * ((- b) powr e))
        else None)"

text \<open>\<^verbatim>\<open>a / b\<close>: non-finite (or \<^verbatim>\<open>ZeroDivisionError\<close>) when \<open>b\<close> is zero.\<close>

definition np_divide :: "real \<Rightarrow> real \<Rightarrow> real option" where
  "np_divide a b = (if b = 0 then None else Some (a / b))"

text \<open>\<^verbatim>\<open>np.log10(v)\<close>: \<^verbatim>\<open>-inf\<close> at zero, \<^verbatim>\<open>nan\<close> below.\<close>

definition np_log10 :: "real \<Rightarrow> real option" where
  "np_log10 v = (if 0 < v then Some (log 10 v) else None)"

text \<open>
  One element of \<^verbatim>\<open>np.piecewise(x, condlist, funclist)\<close>: the output starts at zero and
  each pair, in order, overwrites it where its condition holds.
\<close>

definition np_piecewise ::
  "real \<Rightarrow> (bool \<times> (real \<Rightarrow> real option)) list \<Rightarrow> real option" where
  "np_piecewise v cfs = fold (\<lambda>(c, f) out. if c then f v else out) cfs (Some 0)"

text \<open>\<^verbatim>\<open>np.sum\<close> of an array: non-finite as soon as one element is.\<close>

fun np_sum :: "real option list \<Rightarrow> real option" where
  "np_sum [] = Some 0"
| "np_sum (a # as) = do { v \<leftarrow> a; s \<leftarrow> np_sum as; Some (v + s) }"

text \<open>
  A binary elementwise operation on two one-dimensional arrays: equal lengths pair up, a
  length-one array is stretched, anything else does not broadcast (numpy raises a
  \<^verbatim>\<open>ValueError\<close> of its own, kept apart here as \<open>BroadcastError\<close>).
\<close>

definition broadcast2 :: "('a \<Rightarrow> 'b \<Rightarrow> 'c) \<Rightarrow> 'a list \<Rightarrow> 'b list \<Rightarrow> py_error + 'c list" where
  "broadcast2 f xs ys =
     (if length xs = length ys then Inr (map2 f xs ys)
      else if length xs = 1 then Inr (map (f (hd xs)) ys)
      else if length ys = 1 then Inr (map (\<lambda>x. f x (hd ys)) xs)
      else Inl BroadcastError)"

subsection \<open>The afterglow shapes of \<^verbatim>\<open>model.py\<close>\<close>

text \<open>
  \<^verbatim>\<open>_w07\<close>, \<^verbatim>\<open>_simple_bpl\<close> and \<^verbatim>\<open>_smooth_bpl\<close>, at one element \<open>x\<close>
  of the input array (an Isabelle name cannot start with an underscore, so they are prefixed
  \<open>model\<close>). The local functions \<^verbatim>\<open>before\<close> and \<^verbatim>\<open>after\<close> of the source
  are definitions of their own, taking the variables they capture as first arguments.
\<close>

definition model_w07_before :: "real \<Rightarrow> real \<Rightarrow> real \<Rightarrow> real \<Rightarrow> real \<Rightarrow> real option" where
  "model_w07_before T F alpha t x =
     Some ((- t * pow10 (- x) + alpha - alpha * pow10 (x - T) + F * ln 10) / ln 10)"

definition model_w07_after :: "real \<Rightarrow> real \<Rightarrow> real \<Rightarrow> real \<Rightarrow> real \<Rightarrow> real option" where
  "model_w07_after T F alpha t x =
     Some (F + T * alpha - x * alpha - t * pow10 (- x) / ln 10)"

definition model_w07 :: "real \<Rightarrow> real \<Rightarrow> real \<Rightarrow> real \<Rightarrow> real \<Rightarrow> real option" where
  "model_w07 x T F alpha t =
     np_piecewise x [(x < T, model_w07_before T F alpha t), (x \<ge> T, model_w07_after T F alpha t)]"

definition model_simple_bpl_before :: "real \<Rightarrow> real \<Rightarrow> real \<Rightarrow> real \<Rightarrow> real option" where
  "model_simple_bpl_before linT linF alpha1 x =
     map_option (\<lambda>w. linF * w) (np_power (x / linT) (- alpha1))"

definition model_simple_bpl_after :: "real \<Rightarrow> real \<Rightarrow> real \<Rightarrow> real \<Rightarrow> real option" where
  "model_simple_bpl_after linT linF alpha2 x =
     map_option (\<lambda>w. linF * w) (np_power (x / linT) (- alpha2))"

definition model_simple_bpl :: "real \<Rightarrow> real \<Rightarrow> real \<Rightarrow> real \<Rightarrow> real \<Rightarrow> real option" where
  "model_simple_bpl x T F alpha1 alpha2 =
     (let linT = pow10 T; linF = pow10 F; linX = pow10 x;
          vals = np_piecewise linX
                   [(linX < linT, model_simple_bpl_before linT linF alpha1),
                    (linX \<ge> linT, model_simple_bpl_after linT linF alpha2)]
      in vals \<bind> np_log10)"

definition model_smooth_bpl ::
  "real \<Rightarrow> real \<Rightarrow> real \<Rightarrow> real \<Rightarrow> real \<Rightarrow> real \<Rightarrow> real option" where
  "model_smooth_bpl x T F alpha1 alpha2 S =
     (let linT = pow10 T; linF = pow10 F; linX = pow10 x
      in do {
        a \<leftarrow> np_power (linX / linT) (S * alpha1);
        b \<leftarrow> np_power (linX / linT) (S * alpha2);
        e \<leftarrow> np_divide (- 1) S;
        c \<leftarrow> np_power (a + b) e;
        np_log10 (linF * c)
      })"

subsection \<open>The afterglow shapes of \<^verbatim>\<open>models.py\<close>\<close>

text \<open>
  \<^verbatim>\<open>w07\<close> works in linear space and takes the logarithm at the end;
  \<^verbatim>\<open>smooth_bpl\<close> divides \<^verbatim>\<open>x\<close> itself, not \<^verbatim>\<open>linX\<close>, by
  \<^verbatim>\<open>linT\<close> in its first term, as the source has it.
\<close>

definition w07_before :: "real \<Rightarrow> real \<Rightarrow> real \<Rightarrow> real \<Rightarrow> real \<Rightarrow> real option" where
  "w07_before T F alpha t x =
     np_log10 (pow10 F * exp (alpha - alpha * (pow10 x / pow10 T)) * exp (- t / pow10 x))"

definition w07_after :: "real \<Rightarrow> real \<Rightarrow> real \<Rightarrow> real \<Rightarrow> real \<Rightarrow> real option" where
  "w07_after T F alpha t x =
     do {
       w \<leftarrow> np_power (pow10 x / pow10 T) (- alpha);
       np_log10 (pow10 F * w * exp (- t / pow10 x))
     }"

definition w07 :: "real \<Rightarrow> real \<Rightarrow> real \<Rightarrow> real \<Rightarrow> real \<Rightarrow> real option" where
  "w07 x T F alpha t =
     np_piecewise x
       [(pow10 x < pow10 T, w07_before T F alpha t), (pow10 x \<ge> pow10 T, w07_after T F alpha t)]"

definition sharp_bpl_before :: "real \<Rightarrow> real \<Rightarrow> real \<Rightarrow> real \<Rightarrow> real option" where
  "sharp_bpl_before linT linF alpha1 x =
     map_option (\<lambda>w. linF * w) (np_power (x / linT) (- alpha1))"

definition sharp_bpl_after :: "real \<Rightarrow> real \<Rightarrow> real \<Rightarrow> real \<Rightarrow> real option" where
  "sharp_bpl_after linT linF alpha2 x =
     map_option (\<lambda>w. linF * w) (np_power (x / linT) (- alpha2))"

definition sharp_bpl :: "real \<Rightarrow> real \<Rightarrow> real \<Rightarrow> real \<Rightarrow> real \<Rightarrow> real option" where
  "sharp_bpl x T F alpha1 alpha2 =
     (let linT = pow10 T; linF = pow10 F; linX = pow10 x;
          vals = np_piecewise linX
                   [(linX < linT, sharp_bpl_before linT linF alpha1),
                    (linX \<ge> linT, sharp_bpl_after linT linF alpha2)]
      in vals \<bind> np_log10)"

definition smooth_bpl :: "real \<Rightarrow> real \<Rightarrow> real \<Rightarrow> real \<Rightarrow> real \<Rightarrow> real \<Rightarrow> real option" where
  "smooth_bpl x T F alpha1 alpha2 S =
     (let linT = pow10 T; linF = pow10 F; linX = pow10 x
      in do {
        a \<leftarrow> np_power (x / linT) (alpha1 * S);
        b \<leftarrow> np_power (linX / linT) (alpha2 * S);
        e \<leftarrow> np_divide (- 1) S;
        c \<leftarrow> np_power (a + b) e;
        np_log10 (linF * c)
      })"

subsection \<open>Chi-squared\<close>

text \<open>
  \<^verbatim>\<open>chisq(x, y, sigma, model, p, return_reduced)\<close> of \<^verbatim>\<open>model.py\<close>. The model is any
  callable \<^verbatim>\<open>model(x, *p)\<close>; \<^verbatim>\<open>len(x) - len(p)\<close> is a subtraction of Python
  integers and may be zero or negative.
\<close>

datatype chisq_result = Chisq "real option" | ChisqReduced "real option" "real option"

definition chisq ::
  "real list \<Rightarrow> real list \<Rightarrow> real list \<Rightarrow> (real list \<Rightarrow> real list \<Rightarrow> py_error + real option list)
     \<Rightarrow> real list \<Rightarrow> bool \<Rightarrow> py_error + chisq_result" where
  "chisq x y sigma model p return_reduced =
     (case model x p of
        Inl e \<Rightarrow> Inl e
      | Inr m \<Rightarrow>
          (case broadcast2 (\<lambda>yi mi. map_option (\<lambda>v. yi - v) mi) y m of
             Inl e \<Rightarrow> Inl e
           | Inr r \<Rightarrow>
               (case broadcast2 (\<lambda>ri si. ri \<bind> (\<lambda>v. np_divide (v ^ 2) (si ^ 2))) r sigma of
                  Inl e \<Rightarrow> Inl e
                | Inr q \<Rightarrow>
                    (let c = np_sum q in
                     if return_reduced
                     then Inr (ChisqReduced c
                            (c \<bind> (\<lambda>v. np_divide v
                               (of_int (int (length x) - int (length p))))))
                     else Inr (Chisq c)))))"

subsection \<open>The named presets\<close>

text \<open>
  The three shapes as callables. They have neither keyword-only arguments nor annotations,
  so \<^verbatim>\<open>inspect.getargspec\<close> accepts them; \<open>getargspec_error\<close> is \<open>None\<close>, the value
  under an interpreter that still has the function (the presets pass \<^verbatim>\<open>func_args\<close> and
  never call it).

  How Python binds \<^verbatim>\<open>f(x, *p, **kw)\<close> to the parameters \<open>names\<close> that follow
  \<^verbatim>\<open>x\<close>, none of which has a default: too many positional values, a keyword that is not
  a remaining parameter, or a parameter left without a value raise \<^verbatim>\<open>TypeError\<close>.
\<close>

definition bind_args :: "string list \<Rightarrow> real list \<Rightarrow> kwargs \<Rightarrow> py_error + real list" where
  "bind_args names p kw =
     (if length names < length p then Inl TypeError
      else let rest = drop (length p) names in
        if list_ex (\<lambda>k. k \<notin> set rest) (map fst kw) then Inl TypeError
        else if list_ex (\<lambda>n. map_of kw n = None) rest then Inl TypeError
        else Inr (p @ map (\<lambda>n. the (map_of kw n)) rest))"

definition w07_func :: pyfunc where
  "w07_func =
     \<lparr> func_name = ''_w07'',
       args = [''x'', ''T'', ''F'', ''alpha'', ''t''],
       body = (\<lambda>x p kw.
         case bind_args [''T'', ''F'', ''alpha'', ''t''] p kw of
           Inl e \<Rightarrow> Inl e
         | Inr v \<Rightarrow> Inr (map (\<lambda>xi. model_w07 xi (v ! 0) (v ! 1) (v ! 2) (v ! 3)) x)),
       getargspec_error = None \<rparr>"

definition simple_bpl_func :: pyfunc where
  "simple_bpl_func =
     \<lparr> func_name = ''_simple_bpl'',
       args = [''x'', ''T'', ''F'', ''alpha1'', ''alpha2''],
       body = (\<lambda>x p kw.
         case bind_args [''T'', ''F'', ''alpha1'', ''alpha2''] p kw of
           Inl e \<Rightarrow> Inl e
         | Inr v \<Rightarrow> Inr (map (\<lambda>xi. model_simple_bpl xi (v ! 0) (v ! 1) (v ! 2) (v ! 3)) x)),
       getargspec_error = None \<rparr>"

definition smooth_bpl_func :: pyfunc where
  "smooth_bpl_func =
     \<lparr> func_name = ''_smooth_bpl'',
       args = [''x'', ''T'', ''F'', ''alpha1'', ''alpha2'', ''S''],
       body = (\<lambda>x p kw.
         case bind_args [''T'', ''F'', ''alpha1'', ''alpha2'', ''S''] p kw of
           Inl e \<Rightarrow> Inl e
         | Inr v \<Rightarrow>
             Inr (map (\<lambda>xi. model_smooth_bpl xi (v ! 0) (v ! 1) (v ! 2) (v ! 3) (v ! 4)) x)),
       getargspec_error = None \<rparr>"

text \<open>The parameter lists of the three presets, with their literal priors.\<close>

definition W07_args :: "bool \<Rightarrow> Parameter list" where
  "W07_args vary_t =
     [Parameter_init ''T'' (Some ''log time at end of plateau (log sec)'')
        (Finite (1 / 10 ^ 10)) (Finite 10) True None,
      Parameter_init ''F'' (Some ''log flux at end of plateau (log erg/cm^2/s)'')
        (Finite (- 20)) (Finite 2) True None,
      Parameter_init ''alpha'' (Some ''temporal decay index of power law'')
        (Finite 0) (Finite 5) True (Some (''$'' @ CHR 0x5C # ''alpha$'')),
      Parameter_init ''t'' (Some ''log time at peak (log sec)'')
        (Finite 0) PosInf vary_t None]"

definition SMOOTH_BPL_args :: "Parameter list" where
  "SMOOTH_BPL_args =
     [Parameter_init ''T'' (Some ''log time at end of plateau (log sec)'')
        (Finite (1 / 10 ^ 5)) (Finite 10) True None,
      Parameter_init ''F'' (Some ''log flux at end of plateau  (log erg cm^-2 s^-1)'')
        (Finite (- 20)) (Finite (- 2)) True None,
      Parameter_init ''alpha1'' (Some ''temporal decay index of initial power law'')
        (Finite (- 5)) (Finite 5) True (Some (''$'' @ CHR 0x5C # ''alpha_1$'')),
      Parameter_init ''alpha2'' (Some ''temporal decay index of end power law'')
        (Finite 0) (Finite 20) True (Some (''$'' @ CHR 0x5C # ''alpha_2$'')),
      Parameter_init ''S'' (Some ''smoothing factor'') NegInf PosInf True None]"

definition SIMPLE_BPL_args :: "Parameter list" where
  "SIMPLE_BPL_args =
     [Parameter_init ''T'' (Some ''log time at end of plateau (log sec)'')
        (Finite (1 / 10 ^ 5)) (Finite 10) True None,
      Parameter_init ''F'' (Some ''log flux at end of plateau  (log erg cm^-2 s^-1)'')
        (Finite (- 20)) (Finite (- 2)) True None,
      Parameter_init ''alpha1'' (Some ''temporal decay index of initial power law'')
        (Finite (- 5)) (Finite 5) True (Some (''$'' @ CHR 0x5C # ''alpha_1$'')),
      Parameter_init ''alpha2'' (Some ''temporal decay index of end power law'')
        (Finite 0) (Finite 20) True (Some (''$'' @ CHR 0x5C # ''alpha_2$''))]"

definition W07 :: "bool \<Rightarrow> py_error + Model" where
  "W07 vary_t = Model_init w07_func ''Willingale 2007'' ''w07'' (Some (W07_args vary_t)) None"

definition SMOOTH_BPL :: "py_error + Model" where
  "SMOOTH_BPL =
     Model_init smooth_bpl_func ''smooth broken power law'' ''smooth_bpl''
       (Some SMOOTH_BPL_args) None"

definition SIMPLE_BPL :: "py_error + Model" where
  "SIMPLE_BPL =
     Model_init simple_bpl_func ''simple broken power law'' ''simple_bpl''
       (Some SIMPLE_BPL_args) None"

section \<open>Properties\<close>

subsection \<open>Dictionaries and the branches of construction\<close>

lemma dict_set_keys:
  "map fst (dict_set d k v) = (if k \<in> set (map fst d) then map fst d else map fst d @ [k])"
  by (induction d) (auto simp: rev_image_eqI)

lemma dict_set_map_of: "map_of (dict_set d k v) = (map_of d)(k \<mapsto> v)"
  by (induction d) (auto simp: fun_eq_iff)

lemma dict_comp_snoc:
  "dict_comp key val (xs @ [a]) = dict_set (dict_comp key val xs) (key a) (val a)"
  by (simp add: dict_comp_def)

lemma dict_comp_keys:
  "map fst (dict_comp key val xs) = rev (remdups (rev (map key xs)))"
proof (induction xs rule: rev_induct)
  case Nil
  show ?case by (simp add: dict_comp_def)
next
  case (snoc a xs)
  have "set (map fst (dict_comp key val xs)) = key ` set xs"
    unfolding snoc.IH by simp
  then show ?case
    by (simp add: dict_comp_snoc dict_set_keys snoc.IH)
qed

lemma dict_comp_map_of:
  "map_of (dict_comp key val xs) k = map_option val (find (\<lambda>a. key a = k) (rev xs))"
proof (induction xs rule: rev_induct)
  case Nil
  show ?case by (simp add: dict_comp_def)
next
  case (snoc a xs)
  then show ?case
    by (simp add: dict_comp_snoc dict_set_map_of)
qed

lemma dict_comp_keys_distinct:
  "distinct (map key xs) \<Longrightarrow> map fst (dict_comp key val xs) = map key xs"
  by (simp add: dict_comp_keys distinct_remdups_id)

lemma dict_comp_length:
  "length (dict_comp key val xs) = card (key ` set xs)"
proof -
  have "length (dict_comp key val xs) = length (map fst (dict_comp key val xs))" by simp
  also have "\<dots> = card (set (rev (map key xs)))"
    unfolding dict_comp_keys by (simp add: length_remdups_card_conv del: set_rev set_map)
  finally show ?thesis by simp
qed

lemma find_None_list_ex: "find P xs = None \<longleftrightarrow> \<not> list_ex P xs"
  by (auto simp: find_None_iff list_ex_iff)

lemma find_Some_list_ex: "find P xs = Some a \<Longrightarrow> list_ex P xs \<and> P a"
  by (auto simp: find_Some_iff list_ex_iff)

lemma find_eq_self: "find (\<lambda>a. a = k) xs = (if k \<in> set xs then Some k else None)"
  by (induction xs) auto

text \<open>What construction returns, branch by branch.\<close>

lemma Model_init_bad_name:
  assumes "find (\<lambda>p. \<not> np_contains (drop 1 (args f)) (name p)) ps = Some q"
  shows "Model_init f nm sl (Some ps) b =
           Inl (ValueError (name q) (if nm \<noteq> [] then nm else func_name f) (drop 1 (args f)))"
  using assms by (simp add: Model_init_def Let_def)

lemma Model_init_good_names:
  assumes "find (\<lambda>p. \<not> np_contains (drop 1 (args f)) (name p)) ps = None"
  shows "Model_init f nm sl (Some ps) b =
           (case b of
              Some bs \<Rightarrow>
                if length bs = 4
                then Inr \<lparr> func = f, model_name = (if nm \<noteq> [] then nm else func_name f),
                           slug = (if sl \<noteq> [] then sl
                                   else if nm \<noteq> [] then nm else func_name f),
                           func_args = dict_comp name (\<lambda>p. p) ps, bounds = bs \<rparr>
                else Inl AssertionError
            | None \<Rightarrow>
                Inr \<lparr> func = f, model_name = (if nm \<noteq> [] then nm else func_name f),
                      slug = (if sl \<noteq> [] then sl
                              else if nm \<noteq> [] then nm else func_name f),
                      func_args = dict_comp name (\<lambda>p. p) ps,
                      bounds = [NegInf, PosInf, NegInf, PosInf] \<rparr>)"
  using assms by (simp add: Model_init_def Let_def split: option.splits)

lemma Model_init_Some_Inr:
  assumes "Model_init f nm sl (Some ps) b = Inr m"
  shows "func_args m = dict_comp name (\<lambda>p. p) ps \<and> func m = f
         \<and> find (\<lambda>p. \<not> np_contains (drop 1 (args f)) (name p)) ps = None"
proof (cases "find (\<lambda>p. \<not> np_contains (drop 1 (args f)) (name p)) ps")
  case None
  from assms None show ?thesis
    unfolding Model_init_good_names[OF None]
    by (auto split: option.splits if_splits)
next
  case (Some q)
  from assms show ?thesis
    unfolding Model_init_bad_name[OF Some] by simp
qed

lemma Model_init_None_Inr:
  assumes "Model_init f nm sl None b = Inr m"
  shows "func_args m = dict_comp (\<lambda>n. n) Parameter_default (drop 1 (args f)) \<and> func m = f
         \<and> getargspec_error f = None"
  using assms by (auto simp: Model_init_def Let_def split: option.splits if_splits)

text \<open>On names without trailing NULs the numpy membership is list membership.\<close>

lemma np_contains_plain:
  assumes "nul_free s" and "list_all nul_free arr"
  shows "np_contains arr s \<longleftrightarrow> s \<in> set arr"
  using assms by (auto simp: np_contains_def np_str_eq_def nul_free_def list_ex_iff list_all_iff)

lemma find_bad_name_plain:
  assumes "list_all (\<lambda>p. nul_free (name p)) ps" and "list_all nul_free arr"
  shows "find (\<lambda>p. \<not> np_contains arr (name p)) ps = find (\<lambda>p. name p \<notin> set arr) ps"
  using assms by (intro find_cong) (auto simp: np_contains_plain list_all_iff)

lemma W07_names_accepted:
  "find (\<lambda>p. \<not> np_contains (drop 1 (args w07_func)) (name p)) (W07_args vary_t) = None"
  by (simp add: np_contains_def np_str_eq_def strip_nul_def w07_func_def W07_args_def
      Parameter_init_def)

subsection \<open>Prior bounds of a Parameter\<close>

text \<open>
  Claim C6, as stated: every constructed Parameter has \<open>min \<le> max\<close>. The constructor stores its
  arguments unchecked, so \<^verbatim>\<open>Parameter("a", min=5, max=1)\<close> is constructed with \<open>min > max\<close>.
\<close>

theorem Parameter_min_gt_max_counterexample:
  "\<not> float_le (pmin (Parameter_init ''a'' None (Finite 5) (Finite 1) True None))
                (pmax (Parameter_init ''a'' None (Finite 5) (Finite 1) True None))"
  by (simp add: Parameter_init_def)

text \<open>
  Claim C6, amended: construction stores \<^verbatim>\<open>min\<close> and \<^verbatim>\<open>max\<close> exactly as given, so the
  constructed Parameter has \<open>min \<le> max\<close> if and only if the arguments have; this is the case for
  the default bounds and for every Parameter of the presets W07, SMOOTH_BPL and SIMPLE_BPL.
\<close>

theorem Parameter_init_keeps_bounds:
  "pmin (Parameter_init nm descr lo hi vy fmt) = lo
   \<and> pmax (Parameter_init nm descr lo hi vy fmt) = hi
   \<and> (float_le (pmin (Parameter_init nm descr lo hi vy fmt))
                (pmax (Parameter_init nm descr lo hi vy fmt)) \<longleftrightarrow> float_le lo hi)
   \<and> float_le (pmin (Parameter_default nm)) (pmax (Parameter_default nm))
   \<and> list_all (\<lambda>p. float_le (pmin p) (pmax p)) (W07_args vary_t)
   \<and> list_all (\<lambda>p. float_le (pmin p) (pmax p)) SMOOTH_BPL_args
   \<and> list_all (\<lambda>p. float_le (pmin p) (pmax p)) SIMPLE_BPL_args"
  by (simp add: Parameter_init_def Parameter_default_def W07_args_def SMOOTH_BPL_args_def
      SIMPLE_BPL_args_def)

subsection \<open>Validation of parameter names at construction\<close>

text \<open>
  Claim C1, as stated, has construction fail exactly when some name is not among the callable's
  parameters, and succeed for every list of valid names. Two inputs show otherwise. The name
  \<^verbatim>\<open>'T\x00'\<close> is not a parameter of \<^verbatim>\<open>_w07\<close>, yet the membership test in the numpy
  array finds it and \<^verbatim>\<open>Model(_w07, func_args=[Parameter('T\x00')])\<close> is constructed. The
  constructor also asserts that \<^verbatim>\<open>bounds\<close>, when given, has length 4: with the valid list
  \<^verbatim>\<open>[Parameter("T")]\<close> and the bounds \<^verbatim>\<open>[0, 1]\<close> it raises
  \<^verbatim>\<open>AssertionError\<close>.
\<close>

theorem Model_init_names_counterexample:
  "''T'' @ [CHR 0x00] \<notin> set (drop 1 (args w07_func))
   \<and> map_sum id Model_iter
        (Model_init w07_func [] [] (Some [Parameter_default (''T'' @ [CHR 0x00])]) None)
       = Inr [''T'' @ [CHR 0x00]]
   \<and> ''T'' \<in> set (drop 1 (args w07_func))
   \<and> Model_init w07_func [] [] (Some [Parameter_default ''T'']) (Some [Finite 0, Finite 1])
       = Inl AssertionError"
  by (simp add: Model_init_def Let_def w07_func_def Parameter_default_def Parameter_init_def
      dict_comp_def Model_iter_def np_contains_def np_str_eq_def strip_nul_def)

text \<open>
  Claim C1, amended: with \<^verbatim>\<open>func_args\<close> supplied and no name ending in a NUL character,
  construction raises the \<^verbatim>\<open>ValueError\<close> if and only if some Parameter of the list has a
  name that is not among the callable's positional arguments after the first; the error names
  the first such Parameter, the model and the valid names. When every name is valid and
  \<^verbatim>\<open>bounds\<close> is omitted or of length 4, construction succeeds. The check is made by the
  constructor: every Model it returns has valid names only, so nothing is left to call time.
\<close>

theorem Model_init_ValueError_iff:
  assumes "list_all (\<lambda>p. nul_free (name p)) ps" and "list_all nul_free (drop 1 (args f))"
  shows
  "((\<exists>q n e. Model_init f nm sl (Some ps) b = Inl (ValueError q n e))
      \<longleftrightarrow> list_ex (\<lambda>p. name p \<notin> set (drop 1 (args f))) ps)
   \<and> (\<forall>q. find (\<lambda>p. name p \<notin> set (drop 1 (args f))) ps = Some q \<longrightarrow>
         Model_init f nm sl (Some ps) b =
           Inl (ValueError (name q) (if nm \<noteq> [] then nm else func_name f) (drop 1 (args f))))
   \<and> (list_all (\<lambda>p. name p \<in> set (drop 1 (args f))) ps
        \<and> (case b of None \<Rightarrow> True | Some bs \<Rightarrow> length bs = 4)
        \<longrightarrow> (\<exists>m. Model_init f nm sl (Some ps) b = Inr m))
   \<and> (\<forall>m. Model_init f nm sl (Some ps) b = Inr m \<longrightarrow>
         list_all (\<lambda>k. k \<in> set (drop 1 (args f))) (Model_iter m))"
proof -
  note same = find_bad_name_plain[OF assms]
  have bad: "Model_init f nm sl (Some ps) b =
           Inl (ValueError (name q) (if nm \<noteq> [] then nm else func_name f) (drop 1 (args f)))"
    if "find (\<lambda>p. name p \<notin> set (drop 1 (args f))) ps = Some q" for q
    by (rule Model_init_bad_name) (simp only: same that)
  have accepted: "find (\<lambda>p. \<not> np_contains (drop 1 (args f)) (name p)) ps = None"
    if "find (\<lambda>p. name p \<notin> set (drop 1 (args f))) ps = None"
    by (simp only: same that)
  show ?thesis
  proof (intro conjI allI impI)
    show "(\<exists>q n e. Model_init f nm sl (Some ps) b = Inl (ValueError q n e))
        \<longleftrightarrow> list_ex (\<lambda>p. name p \<notin> set (drop 1 (args f))) ps"
    proof (cases "find (\<lambda>p. name p \<notin> set (drop 1 (args f))) ps")
      case None
      have "\<not> list_ex (\<lambda>p. name p \<notin> set (drop 1 (args f))) ps"
        by (rule iffD1[OF find_None_list_ex None])
      moreover have "\<not> (\<exists>q n e. Model_init f nm sl (Some ps) b = Inl (ValueError q n e))"
        unfolding Model_init_good_names[OF accepted[OF None]] by (simp split: option.splits)
      ultimately show ?thesis by blast
    next
      case (Some q)
      have "list_ex (\<lambda>p. name p \<notin> set (drop 1 (args f))) ps"
        using find_Some_list_ex[OF Some] by blast
      moreover have "\<exists>q n e. Model_init f nm sl (Some ps) b = Inl (ValueError q n e)"
        unfolding bad[OF Some] by blast
      ultimately show ?thesis by blast
    qed
  next
    fix q assume "find (\<lambda>p. name p \<notin> set (drop 1 (args f))) ps = Some q"
    then show "Model_init f nm sl (Some ps) b =
             Inl (ValueError (name q) (if nm \<noteq> [] then nm else func_name f) (drop 1 (args f)))"
      by (rule bad)
  next
    assume a: "list_all (\<lambda>p. name p \<in> set (drop 1 (args f))) ps
          \<and> (case b of None \<Rightarrow> True | Some bs \<Rightarrow> length bs = 4)"
    then have "\<not> list_ex (\<lambda>p. name p \<notin> set (drop 1 (args f))) ps"
      by (auto simp: list_all_iff list_ex_iff)
    then have None: "find (\<lambda>p. name p \<notin> set (drop 1 (args f))) ps = None"
      by (rule iffD2[OF find_None_list_ex])
    from a show "\<exists>m. Model_init f nm sl (Some ps) b = Inr m"
      unfolding Model_init_good_names[OF accepted[OF None]] by (auto split: option.splits)
  next
    fix m assume m: "Model_init f nm sl (Some ps) b = Inr m"
    from Model_init_Some_Inr[OF m]
    have fa: "func_args m = dict_comp name (\<lambda>p. p) ps"
      and acc: "find (\<lambda>p. \<not> np_contains (drop 1 (args f)) (name p)) ps = None" by simp_all
    from acc have None: "find (\<lambda>p. name p \<notin> set (drop 1 (args f))) ps = None"
      by (simp only: same)
    have "\<forall>p\<in>set ps. name p \<in> set (drop 1 (args f))"
      using None by (auto simp: find_None_iff)
    then show "list_all (\<lambda>k. k \<in> set (drop 1 (args f))) (Model_iter m)"
      by (auto simp: Model_iter_def fa dict_comp_keys list_all_iff)
  qed
qed

text \<open>
  The theorem at \<^verbatim>\<open>_w07\<close>: the parameter list of the W07 preset is accepted, a list with the
  name \<^verbatim>\<open>beta\<close> is refused with the error that names it.
\<close>

theorem Model_init_ValueError_iff_witness:
  "(\<exists>m. Model_init w07_func [] [] (Some (W07_args True)) None = Inr m)
   \<and> Model_init w07_func [] [] (Some [Parameter_default ''T'', Parameter_default ''beta'']) None
       = Inl (ValueError ''beta'' ''_w07'' [''T'', ''F'', ''alpha'', ''t''])"
proof -
  have sig: "list_all nul_free (drop 1 (args w07_func))"
    by (simp add: w07_func_def nul_free_def strip_nul_def)
  have n1: "list_all (\<lambda>p. nul_free (name p)) (W07_args True)"
    by (simp add: W07_args_def Parameter_init_def nul_free_def strip_nul_def)
  have n2: "list_all (\<lambda>p. nul_free (name p)) [Parameter_default ''T'', Parameter_default ''beta'']"
    by (simp add: Parameter_default_def Parameter_init_def nul_free_def strip_nul_def)
  have g: "list_all (\<lambda>p. name p \<in> set (drop 1 (args w07_func))) (W07_args True)
        \<and> (case None :: pyfloat list option of None \<Rightarrow> True | Some bs \<Rightarrow> length bs = 4)"
    by (simp add: w07_func_def W07_args_def Parameter_init_def)
  have b: "find (\<lambda>p. name p \<notin> set (drop 1 (args w07_func)))
             [Parameter_default ''T'', Parameter_default ''beta'']
           = Some (Parameter_default ''beta'')"
    by (simp add: w07_func_def Parameter_default_def Parameter_init_def)
  from Model_init_ValueError_iff[OF n1 sig, of "[]" "[]" None] g
  have 1: "\<exists>m. Model_init w07_func [] [] (Some (W07_args True)) None = Inr m"
    by blast
  from Model_init_ValueError_iff[OF n2 sig, of "[]" "[]" None] b
  have 2: "Model_init w07_func [] [] (Some [Parameter_default ''T'', Parameter_default ''beta'']) None
       = Inl (ValueError (name (Parameter_default ''beta''))
               (if ([]::string) \<noteq> [] then [] else func_name w07_func) (drop 1 (args w07_func)))"
    by blast
  have 3: "name (Parameter_default ''beta'') = ''beta''"
    by (simp add: Parameter_default_def Parameter_init_def)
  have 4: "func_name w07_func = ''_w07'' \<and> drop 1 (args w07_func) = [''T'', ''F'', ''alpha'', ''t'']"
    by (simp add: w07_func_def)
  from 1 2 3 4 show ?thesis by simp
qed

subsection \<open>Iteration, length and indexing\<close>

text \<open>
  Claim C7, as stated, has the declared parameters in the order of the callable's signature.
  The dictionary is built from \<^verbatim>\<open>func_args\<close> in the order the caller lists them:
  \<^verbatim>\<open>Model(_w07, func_args=[Parameter("F"), Parameter("T")])\<close> is constructed and iterates as
  \<^verbatim>\<open>F, T\<close>, while the signature has \<^verbatim>\<open>T\<close> before \<^verbatim>\<open>F\<close>.
\<close>

theorem Model_iter_order_counterexample:
  "map_sum id Model_iter
     (Model_init w07_func [] [] (Some [Parameter_default ''F'', Parameter_default ''T'']) None)
     = Inr [''F'', ''T'']
   \<and> drop 1 (args w07_func) = [''T'', ''F'', ''alpha'', ''t'']"
  by (simp add: Model_init_def w07_func_def Parameter_default_def Parameter_init_def
      dict_comp_def Model_iter_def Let_def np_contains_def np_str_eq_def strip_nul_def)

text \<open>
  Claim C7, amended: iterating a constructed Model yields the distinct names of
  \<^verbatim>\<open>func_args\<close> in the order of their first occurrence in the supplied list; this is the
  signature order when the caller lists the parameters in that order, and when
  \<^verbatim>\<open>func_args\<close> is omitted. \<^verbatim>\<open>len(model)\<close> is the number of names iterated, which is
  the number of distinct names supplied, and indexing by a name returns the last Parameter
  supplied under it (\<^verbatim>\<open>KeyError\<close> for any other key).
\<close>

theorem Model_iter_len_getitem:
  "(\<forall>m. Model_init f nm sl (Some ps) b = Inr m \<longrightarrow>
       Model_iter m = rev (remdups (rev (map name ps)))
     \<and> (distinct (map name ps) \<longrightarrow> Model_iter m = map name ps)
     \<and> (map name ps = drop 1 (args f) \<and> distinct (drop 1 (args f)) \<longrightarrow>
          Model_iter m = drop 1 (args f))
     \<and> Model_len m = length (Model_iter m)
     \<and> Model_len m = card (name ` set ps)
     \<and> (\<forall>k. Model_getitem m k =
           (case find (\<lambda>p. name p = k) (rev ps) of
              Some p \<Rightarrow> Inr p | None \<Rightarrow> Inl (KeyError k))))
   \<and> (\<forall>m. Model_init f nm sl None b = Inr m \<and> distinct (drop 1 (args f)) \<longrightarrow>
       Model_iter m = drop 1 (args f)
     \<and> Model_len m = length (drop 1 (args f))
     \<and> (\<forall>k. Model_getitem m k =
           (if k \<in> set (drop 1 (args f)) then Inr (Parameter_default k)
            else Inl (KeyError k))))"
proof (intro conjI allI impI)
  fix m assume m: "Model_init f nm sl (Some ps) b = Inr m"
  from Model_init_Some_Inr[OF m]
  have fa: "func_args m = dict_comp name (\<lambda>p. p) ps" by simp
  show it: "Model_iter m = rev (remdups (rev (map name ps)))"
    by (simp add: Model_iter_def fa dict_comp_keys)
  show "Model_len m = length (Model_iter m)"
    by (simp add: Model_len_def Model_iter_def)
  show "Model_len m = card (name ` set ps)"
    by (simp add: Model_len_def fa dict_comp_length)
  show "Model_getitem m k =
           (case find (\<lambda>p. name p = k) (rev ps) of
              Some p \<Rightarrow> Inr p | None \<Rightarrow> Inl (KeyError k))" for k
    by (simp add: Model_getitem_def fa dict_comp_map_of split: option.splits)
  { assume "distinct (map name ps)"
    then show "Model_iter m = map name ps"
      by (simp add: Model_iter_def fa dict_comp_keys_distinct) }
  { assume "map name ps = drop 1 (args f) \<and> distinct (drop 1 (args f))"
    then have "distinct (map name ps)" and e: "map name ps = drop 1 (args f)" by simp_all
    then have "Model_iter m = map name ps"
      by (simp add: Model_iter_def fa dict_comp_keys_distinct)
    with e show "Model_iter m = drop 1 (args f)" by simp }
next
  fix m assume "Model_init f nm sl None b = Inr m \<and> distinct (drop 1 (args f))"
  then have m: "Model_init f nm sl None b = Inr m" and d: "distinct (drop 1 (args f))"
    by simp_all
  from Model_init_None_Inr[OF m]
  have fa: "func_args m = dict_comp (\<lambda>n. n) Parameter_default (drop 1 (args f))" by simp
  have keys: "map fst (func_args m) = drop 1 (args f)"
    unfolding fa using dict_comp_keys_distinct[of "\<lambda>n. n" "drop 1 (args f)" Parameter_default] d
    by simp
  show "Model_iter m = drop 1 (args f)"
    by (simp only: Model_iter_def keys)
  show "Model_len m = length (drop 1 (args f))"
    unfolding Model_len_def using arg_cong[OF keys, of length] by simp
  show "Model_getitem m k =
           (if k \<in> set (drop 1 (args f)) then Inr (Parameter_default k)
            else Inl (KeyError k))" for k
    by (simp add: Model_getitem_def fa dict_comp_map_of find_eq_self)
qed

text \<open>
  The theorem at the W07 preset, and at \<^verbatim>\<open>_w07\<close> with \<^verbatim>\<open>func_args\<close> omitted: both
  iterate in signature order.
\<close>

theorem Model_iter_len_getitem_witness:
  "map_sum id Model_iter (W07 True) = Inr [''T'', ''F'', ''alpha'', ''t'']
   \<and> map_sum id Model_len (W07 True) = Inr 4
   \<and> map_sum id Model_iter (Model_init w07_func [] [] None None)
       = Inr [''T'', ''F'', ''alpha'', ''t'']"
proof -
  have names: "map name (W07_args True) = drop 1 (args w07_func)"
    and sig: "drop 1 (args w07_func) = [''T'', ''F'', ''alpha'', ''t'']"
    by (simp_all add: w07_func_def W07_args_def Parameter_init_def)
  have dist: "distinct (drop 1 (args w07_func))"
    unfolding sig by simp
  obtain m where m: "Model_init w07_func ''Willingale 2007'' ''w07'' (Some (W07_args True)) None
                       = Inr m"
    unfolding Model_init_good_names[OF W07_names_accepted] by simp
  obtain m' where m': "Model_init w07_func [] [] None None = Inr m'"
    by (simp add: Model_init_def Let_def w07_func_def)
  note thm1 = Model_iter_len_getitem[of w07_func "''Willingale 2007''" "''w07''"
                "W07_args True" None]
  note thm2 = Model_iter_len_getitem[of w07_func "[]" "[]" "W07_args True" None]
  from thm1 m names dist have 1: "Model_iter m = drop 1 (args w07_func)" by blast
  from thm1 m have 2: "Model_len m = length (Model_iter m)" by blast
  from thm2 m' dist have 3: "Model_iter m' = drop 1 (args w07_func)" by blast
  from 1 2 3 show ?thesis
    unfolding sig by (simp add: W07_def m m')
qed

subsection \<open>Calling a Model\<close>



subsection \<open>Powers of ten and the two Willingale shapes\<close>

lemma pow10_pos [simp]: "0 < pow10 a"
  by (simp add: pow10_def)

lemma pow10_neq0 [simp]: "pow10 a \<noteq> 0"
  by (simp add: pow10_def)

lemma log10_pow10 [simp]: "log 10 (pow10 a) = a"
  by (simp add: pow10_def)

lemma pow10_div: "pow10 a / pow10 b = pow10 (a - b)"
  by (simp add: pow10_def powr_diff)

lemma pow10_less_iff [simp]: "pow10 a < pow10 b \<longleftrightarrow> a < b"
  by (simp add: pow10_def)

lemma pow10_le_iff [simp]: "pow10 a \<le> pow10 b \<longleftrightarrow> a \<le> b"
  by (simp add: pow10_def)

lemma pow10_powr: "pow10 a powr e = pow10 (a * e)"
  by (simp add: pow10_def powr_powr)

lemma np_power_pos: "0 < b \<Longrightarrow> np_power b e = Some (b powr e)"
  by (simp add: np_power_def)

lemma np_power_pow10: "np_power (pow10 a) e = Some (pow10 (a * e))"
  by (simp add: np_power_pos pow10_powr)

lemma model_w07_eq:
  "model_w07 x T F alpha t =
     (if x < T then model_w07_before T F alpha t x else model_w07_after T F alpha t x)"
  by (simp add: model_w07_def np_piecewise_def not_less)

lemma w07_eq:
  "w07 x T F alpha t =
     (if x < T then w07_before T F alpha t x else w07_after T F alpha t x)"
  by (simp add: w07_def np_piecewise_def not_less)

lemma ln10_pos: "0 < ln (10::real)"
  by simp

lemma neg_div_pow10: "- t / pow10 x = - t * pow10 (- x)"
  by (simp add: pow10_def powr_minus_divide)

lemma w07_before_eq: "w07_before T F alpha t x = model_w07_before T F alpha t x"
proof -
  have pos: "0 < pow10 F * exp (alpha - alpha * (pow10 x / pow10 T)) * exp (- t / pow10 x)"
    by simp
  have "log 10 (pow10 F * exp (alpha - alpha * (pow10 x / pow10 T)) * exp (- t / pow10 x))
        = F + (alpha - alpha * pow10 (x - T)) / ln 10 + (- t / pow10 x) / ln 10"
    by (simp add: log_mult pow10_div)
  also have "\<dots> = F + (alpha - alpha * pow10 (x - T)) / ln 10 + (- t * pow10 (- x)) / ln 10"
    by (simp only: neg_div_pow10)
  also have "\<dots> = (- t * pow10 (- x) + alpha - alpha * pow10 (x - T) + F * ln 10) / ln 10"
    using ln10_pos by (simp add: field_simps)
  finally have "log 10 (pow10 F * exp (alpha - alpha * (pow10 x / pow10 T)) * exp (- t / pow10 x))
        = (- t * pow10 (- x) + alpha - alpha * pow10 (x - T) + F * ln 10) / ln 10" .
  then show ?thesis
    unfolding w07_before_def model_w07_before_def np_log10_def using pos by simp
qed

lemma w07_after_eq: "w07_after T F alpha t x = model_w07_after T F alpha t x"
proof -
  have w: "np_power (pow10 x / pow10 T) (- alpha) = Some (pow10 ((x - T) * - alpha))"
    by (simp only: pow10_div np_power_pow10)
  have pos: "0 < pow10 F * pow10 ((x - T) * - alpha) * exp (- t / pow10 x)"
    by simp
  have "log 10 (pow10 F * pow10 ((x - T) * - alpha) * exp (- t / pow10 x))
        = F + (x - T) * - alpha + (- t / pow10 x) / ln 10"
    by (simp add: log_mult)
  also have "\<dots> = F + (x - T) * - alpha + (- t * pow10 (- x)) / ln 10"
    by (simp only: neg_div_pow10)
  also have "\<dots> = F + T * alpha - x * alpha - t * pow10 (- x) / ln 10"
    by (simp add: algebra_simps)
  finally have "log 10 (pow10 F * pow10 ((x - T) * - alpha) * exp (- t / pow10 x))
        = F + T * alpha - x * alpha - t * pow10 (- x) / ln 10" .
  then show ?thesis
    unfolding w07_after_def model_w07_after_def w np_log10_def using pos by simp
qed

text \<open>
  Claim C10: the linear-space \<^verbatim>\<open>w07\<close> of \<^verbatim>\<open>models.py\<close> and the log-space
  \<^verbatim>\<open>_w07\<close> of \<^verbatim>\<open>model.py\<close> return the same value for all real inputs, before
  and after the break; both are finite.
\<close>

theorem w07_equivalent:
  "w07 x T F alpha t = model_w07 x T F alpha t
   \<and> w07 x T F alpha t =
       Some (if x < T
             then (- t * pow10 (- x) + alpha - alpha * pow10 (x - T) + F * ln 10) / ln 10
             else F + T * alpha - x * alpha - t * pow10 (- x) / ln 10)"
  by (simp add: w07_eq model_w07_eq w07_before_eq w07_after_eq model_w07_before_def
      model_w07_after_def)

subsection \<open>The value at the breakpoint\<close>

lemma exp_neg_lower_cubic:
  fixes y :: real
  assumes "0 \<le> y"
  shows "1 - y + y\<^sup>2 / 2 - y ^ 3 / 6 \<le> exp (- y)"
proof -
  obtain t where t: "exp (- y) = (\<Sum>m<4. (- y) ^ m / fact m) + exp t / fact 4 * (- y) ^ 4"
    using Maclaurin_exp_le[of "- y" 4] by blast
  have s: "(\<Sum>m<4. (- y) ^ m / fact m) = 1 - y + y\<^sup>2 / 2 - y ^ 3 / 6"
    by (simp add: eval_nat_numeral lessThan_Suc)
  have "0 \<le> exp t / fact 4 * (- y) ^ 4"
    by simp
  with t s show ?thesis by linarith
qed

lemma ln10_lower: "2299 / 1000 < ln (10::real)"
proof -
  let ?y = "2299 / 16000 :: real"
  have p: "1 - ?y + ?y\<^sup>2 / 2 - ?y ^ 3 / 6 \<le> exp (- ?y)"
    by (rule exp_neg_lower_cubic) simp
  have "1 / 10 < (1 - ?y + ?y\<^sup>2 / 2 - ?y ^ 3 / 6) ^ 16"
    by (simp add: power2_eq_square power3_eq_cube power_divide)
  also have "\<dots> \<le> exp (- ?y) ^ 16"
    by (rule power_mono[OF p]) (simp add: power2_eq_square power3_eq_cube)
  also have "\<dots> = exp (- (2299 / 1000))"
    by (simp add: exp_of_nat_mult[symmetric])
  finally have "exp (2299 / 1000) < (10::real)"
    by (simp add: exp_minus field_simps)
  then have "exp (2299 / 1000) < exp (ln (10::real))" by simp
  then show ?thesis by (simp only: exp_less_cancel_iff)
qed

lemma ln10_upper: "ln (10::real) < 235 / 100"
proof -
  let ?z = "235 / 800 :: real"
  have p: "1 + ?z + ?z\<^sup>2 / 2 \<le> exp ?z"
    by (rule exp_lower_Taylor_quadratic) simp
  have "10 < (1 + ?z + ?z\<^sup>2 / 2) ^ 8"
    by (simp add: power2_eq_square power_divide)
  also have "\<dots> \<le> exp ?z ^ 8"
    by (rule power_mono[OF p]) (simp add: power2_eq_square)
  also have "\<dots> = exp (235 / 100)"
    by (simp add: exp_of_nat_mult[symmetric])
  finally have "exp (ln (10::real)) < exp (235 / 100)" by simp
  then show ?thesis by (simp only: exp_less_cancel_iff)
qed


lemma np_power_one: "np_power 1 e = Some 1"
  by (simp add: np_power_def)

lemma model_simple_bpl_eq:
  "model_simple_bpl x T F alpha1 alpha2 =
     (if x < T then model_simple_bpl_before (pow10 T) (pow10 F) alpha1 (pow10 x)
      else model_simple_bpl_after (pow10 T) (pow10 F) alpha2 (pow10 x)) \<bind> np_log10"
  by (simp add: model_simple_bpl_def Let_def np_piecewise_def not_less)

lemma model_simple_bpl_after_log:
  "model_simple_bpl_after (pow10 T) (pow10 F) alpha2 (pow10 x) \<bind> np_log10
     = Some (F - alpha2 * (x - T))"
proof -
  have w: "np_power (pow10 x / pow10 T) (- alpha2) = Some (pow10 ((x - T) * - alpha2))"
    by (simp only: pow10_div np_power_pow10)
  have "log 10 (pow10 F * pow10 ((x - T) * - alpha2)) = F - alpha2 * (x - T)"
    by (simp add: log_mult algebra_simps)
  then show ?thesis
    by (simp add: model_simple_bpl_after_def w np_log10_def)
qed

lemma model_simple_bpl_before_log:
  "model_simple_bpl_before (pow10 T) (pow10 F) alpha1 (pow10 x) \<bind> np_log10
     = Some (F - alpha1 * (x - T))"
proof -
  have w: "np_power (pow10 x / pow10 T) (- alpha1) = Some (pow10 ((x - T) * - alpha1))"
    by (simp only: pow10_div np_power_pow10)
  have "log 10 (pow10 F * pow10 ((x - T) * - alpha1)) = F - alpha1 * (x - T)"
    by (simp add: log_mult algebra_simps)
  then show ?thesis
    by (simp add: model_simple_bpl_before_def w np_log10_def)
qed

lemma model_smooth_bpl_at_break:
  "model_smooth_bpl T T F alpha1 alpha2 S = (if S = 0 then None else Some (F - log 10 2 / S))"
proof (cases "S = 0")
  case True
  then show ?thesis
    by (simp add: model_smooth_bpl_def Let_def np_power_one np_divide_def)
next
  case False
  have c: "np_power (1 + 1) (- 1 / S) = Some (2 powr (- 1 / S))"
    by (simp add: np_power_pos)
  have "log 10 (pow10 F * 2 powr (- 1 / S)) = F - log 10 2 / S"
    by (simp add: log_mult log_powr)
  then show ?thesis
    using False c by (simp add: model_smooth_bpl_def Let_def np_power_one np_divide_def np_log10_def)
qed

lemma pow10_neg5: "pow10 (- 5) = 1 / 100000"
  by (simp add: pow10_def powr_minus_divide)

text \<open>
  Claim C3, as stated, has all three shapes equal their after-break branch at \<open>x = T\<close>.
  \<^verbatim>\<open>_smooth_bpl\<close> has one formula and no branch; the branch after the break of the broken
  power law, \<^verbatim>\<open>linF * (linX / linT) ** (-alpha2)\<close>, has the logarithm \<open>F\<close> at \<open>x = T\<close>,
  and the smooth formula does not take that value: at \<open>T = 5\<close>, \<open>F = -12\<close>, \<open>alpha1 = 1\<close>,
  \<open>alpha2 = 2\<close>, \<open>S = 1\<close> it gives \<open>-12 - log10(2)\<close>.
\<close>

theorem smooth_bpl_breakpoint_counterexample:
  "model_smooth_bpl 5 5 (- 12) 1 2 1 = Some (- 12 - log 10 2)
   \<and> model_simple_bpl_after (pow10 5) (pow10 (- 12)) 2 (pow10 5) \<bind> np_log10 = Some (- 12)
   \<and> model_simple_bpl 5 5 (- 12) 1 2 = Some (- 12)
   \<and> model_smooth_bpl 5 5 (- 12) 1 2 1 \<noteq> Some (- 12)"
proof -
  have v: "model_smooth_bpl 5 5 (- 12) 1 2 1 = Some (- 12 - log 10 2)"
    by (simp add: model_smooth_bpl_at_break)
  have "0 < log 10 (2 :: real)"
    by simp
  then have "- 12 - log 10 2 \<noteq> (- 12 :: real)"
    by linarith
  with v show ?thesis
    by (simp add: model_simple_bpl_eq model_simple_bpl_after_log)
qed

text \<open>
  Claim C3, amended: at \<open>x = T\<close> the two piecewise shapes of \<^verbatim>\<open>model.py\<close> take the value of
  their after-break branch. \<^verbatim>\<open>_w07\<close> returns \<^verbatim>\<open>after(T)\<close>; \<^verbatim>\<open>_simple_bpl\<close> returns
  the logarithm of \<^verbatim>\<open>after(linT)\<close>, which is \<open>F\<close>. \<^verbatim>\<open>_smooth_bpl\<close> has one formula and
  no branch to select; its value at \<open>x = T\<close> is \<open>F - log10(2) / S\<close> for \<open>S \<noteq> 0\<close>, never \<open>F\<close>. At
  \<open>T = 5\<close>, \<open>F = -12\<close>, \<open>alpha = 1.5\<close>, \<open>t = 1\<close>, \<open>x = 5\<close> the Willingale shape is
  \<^verbatim>\<open>F + T*alpha - x*alpha - t*10**(-x)/ln(10)\<close>, a number between \<open>-12.00000435\<close> and
  \<open>-12.00000425\<close>.
\<close>

theorem breakpoint_values:
  "model_w07 T T F alpha t = model_w07_after T F alpha t T
   \<and> model_w07 T T F alpha t = Some (F + T * alpha - T * alpha - t * pow10 (- T) / ln 10)
   \<and> model_simple_bpl T T F alpha1 alpha2
       = model_simple_bpl_after (pow10 T) (pow10 F) alpha2 (pow10 T) \<bind> np_log10
   \<and> model_simple_bpl T T F alpha1 alpha2 = Some F
   \<and> model_smooth_bpl T T F alpha1 alpha2 S = (if S = 0 then None else Some (F - log 10 2 / S))
   \<and> model_smooth_bpl T T F alpha1 alpha2 S \<noteq> Some F
   \<and> model_w07 5 5 (- 12) (3 / 2) 1 = Some (- 12 + 5 * (3 / 2) - 5 * (3 / 2) - 1 * pow10 (- 5) / ln 10)
   \<and> - 12.00000435 < - 12 + 5 * (3 / 2) - 5 * (3 / 2) - 1 * pow10 (- 5) / ln 10
   \<and> - 12 + 5 * (3 / 2) - 5 * (3 / 2) - 1 * pow10 (- 5) / ln 10 < - (12.00000425 :: real)"
proof (intro conjI)
  show "model_w07 T T F alpha t = model_w07_after T F alpha t T"
    by (simp add: model_w07_eq)
  show "model_w07 T T F alpha t = Some (F + T * alpha - T * alpha - t * pow10 (- T) / ln 10)"
    by (simp add: model_w07_eq model_w07_after_def)
  show "model_simple_bpl T T F alpha1 alpha2
       = model_simple_bpl_after (pow10 T) (pow10 F) alpha2 (pow10 T) \<bind> np_log10"
    by (simp add: model_simple_bpl_eq)
  show "model_simple_bpl T T F alpha1 alpha2 = Some F"
    by (simp add: model_simple_bpl_eq model_simple_bpl_after_log)
  show "model_smooth_bpl T T F alpha1 alpha2 S = (if S = 0 then None else Some (F - log 10 2 / S))"
    by (rule model_smooth_bpl_at_break)
  have "0 < log 10 (2 :: real)"
    by simp
  then have "log 10 (2 :: real) \<noteq> 0"
    by linarith
  then show "model_smooth_bpl T T F alpha1 alpha2 S \<noteq> Some F"
    by (simp add: model_smooth_bpl_at_break)
  show "model_w07 5 5 (- 12) (3 / 2) 1
          = Some (- 12 + 5 * (3 / 2) - 5 * (3 / 2) - 1 * pow10 (- 5) / ln 10)"
    by (simp add: model_w07_eq model_w07_after_def)
  have lo: "2299 / 1000 < ln (10::real)" by (rule ln10_lower)
  have hi: "ln (10::real) < 235 / 100" by (rule ln10_upper)
  have pos: "0 < ln (10::real)" by simp
  have a: "(1 / 100000) / ln (10::real) < 435 / 100000000"
    using lo pos by (simp add: field_simps)
  have b: "425 / 100000000 < (1 / 100000) / ln (10::real)"
    using hi pos by (simp add: field_simps)
  show "- 12.00000435 < - 12 + 5 * (3 / 2) - 5 * (3 / 2) - 1 * pow10 (- 5) / ln 10"
    using a by (simp add: pow10_neg5)
  show "- 12 + 5 * (3 / 2) - 5 * (3 / 2) - 1 * pow10 (- 5) / ln 10 < - (12.00000425 :: real)"
    using b by (simp add: pow10_neg5)
qed

subsection \<open>Chi-squared of a fit\<close>

lemma broadcast2_same_length:
  "length xs = length ys \<Longrightarrow> broadcast2 f xs ys = Inr (map2 f xs ys)"
  by (simp add: broadcast2_def)

lemma np_sum_chisq:
  assumes "length y = length m" "length m = length sigma"
  shows "np_sum (map2 (\<lambda>ri si. ri \<bind> (\<lambda>v. np_divide (v ^ 2) (si ^ 2)))
                  (map2 (\<lambda>yi mi. map_option (\<lambda>v. yi - v) mi) y m) sigma)
         = (if 0 \<in> set sigma \<or> None \<in> set m then None
            else Some (\<Sum>i<length m. ((y ! i - the (m ! i)) / sigma ! i) ^ 2))"
  using assms
proof (induction y m sigma rule: list_induct3)
  case Nil
  show ?case by simp
next
  case (Cons yi y mi m si sigma)
  show ?case
  proof (cases mi)
    case None
    then show ?thesis by simp
  next
    case (Some v)
    show ?thesis
    proof (cases "si = 0")
      case True
      then show ?thesis by (simp add: Some np_divide_def)
    next
      case False
      then show ?thesis
        using Cons.IH
        by (auto simp: Some np_divide_def sum.lessThan_Suc_shift power_divide
            simp del: sum.lessThan_Suc)
    qed
  qed
qed

lemma chisq_equal_lengths:
  assumes "model x p = Inr m" "length y = length m" "length sigma = length m"
  shows "chisq x y sigma model p rr =
           (let c = (if 0 \<in> set sigma \<or> None \<in> set m then None
                     else Some (\<Sum>i<length m. ((y ! i - the (m ! i)) / sigma ! i) ^ 2))
            in if rr
               then Inr (ChisqReduced c
                      (c \<bind> (\<lambda>v. np_divide v (of_int (int (length x) - int (length p))))))
               else Inr (Chisq c))"
  using assms
  by (simp add: chisq_def broadcast2_same_length np_sum_chisq Let_def)

text \<open>
  Claim C2: for \<open>x\<close>, \<open>y\<close>, \<open>sigma\<close> of one length and a model whose output \<open>m\<close> has that
  length, \<^verbatim>\<open>chisq\<close> is the sum over \<open>i\<close> of \<open>((y\<^sub>i - m\<^sub>i) / sigma\<^sub>i)\<^sup>2\<close>, and with
  \<^verbatim>\<open>return_reduced\<close> it returns that sum paired with the sum divided by
  \<^verbatim>\<open>len(x) - len(p)\<close>. Where a \<open>sigma\<^sub>i\<close> is zero or an \<open>m\<^sub>i\<close> is not finite the sum is not
  finite, and so is the reduced value when \<^verbatim>\<open>len(x) = len(p)\<close>.
\<close>

theorem chisq_is_weighted_sum:
  assumes "length y = length x" and "length sigma = length x"
      and "model x p = Inr m" and "length m = length x"
  shows "chisq x y sigma model p False =
           Inr (Chisq (if 0 \<in> set sigma \<or> None \<in> set m then None
                       else Some (\<Sum>i<length x. ((y ! i - the (m ! i)) / sigma ! i) ^ 2)))
       \<and> chisq x y sigma model p True =
           Inr (ChisqReduced
                 (if 0 \<in> set sigma \<or> None \<in> set m then None
                  else Some (\<Sum>i<length x. ((y ! i - the (m ! i)) / sigma ! i) ^ 2))
                 (if 0 \<in> set sigma \<or> None \<in> set m \<or> length x = length p then None
                  else Some ((\<Sum>i<length x. ((y ! i - the (m ! i)) / sigma ! i) ^ 2)
                               / (real (length x) - real (length p)))))"
proof -
  have l: "length y = length m" "length sigma = length m"
    using assms by simp_all
  show ?thesis
    unfolding chisq_equal_lengths[of model x p m y sigma, OF assms(3) l]
    using assms(4) by (auto simp: Let_def np_divide_def)
qed

text \<open>
  The theorem at two points, the model \<open>y = p\<^sub>0 x\<close> and one parameter: the residuals are 1 and 1,
  the errors 1 and 2, so both values are \<open>5/4\<close>.
\<close>

theorem chisq_is_weighted_sum_witness:
  "chisq [1, 2] [3, 5] [1, 2] (\<lambda>x p. Inr (map (\<lambda>v. Some (hd p * v)) x)) [2] True
     = Inr (ChisqReduced (Some (5 / 4)) (Some (5 / 4)))
   \<and> chisq [1, 2] [3, 5] [1, 2] (\<lambda>x p. Inr (map (\<lambda>v. Some (hd p * v)) x)) [2] False
     = Inr (Chisq (Some (5 / 4)))"
proof -
  have m: "(\<lambda>x p. Inr (map (\<lambda>v. Some (hd p * v)) x)) [1, 2 :: real] [2 :: real]
             = (Inr [Some 2, Some 4] :: py_error + real option list)"
    by simp
  have s: "(\<Sum>i<length [1, 2 :: real].
             (([3, 5] ! i - the ([Some 2, Some 4] ! i)) / [1, 2 :: real] ! i) ^ 2) = (5 / 4 :: real)"
    by (simp add: lessThan_Suc eval_nat_numeral)
  from chisq_is_weighted_sum[of "[3, 5]" "[1, 2]" "[1, 2]"
         "\<lambda>x p. Inr (map (\<lambda>v. Some (hd p * v)) x)" "[2]" "[Some 2, Some 4]"] m
  show ?thesis
    unfolding s by simp
qed

text \<open>
  Claim C9: when \<open>y\<close> is exactly the model's output and no entry of \<open>sigma\<close> is zero,
  \<^verbatim>\<open>chisq\<close> returns 0.
\<close>

theorem chisq_exact_fit_is_zero:
  assumes "model x p = Inr (map Some y)" and "length sigma = length y" and "0 \<notin> set sigma"
  shows "chisq x y sigma model p False = Inr (Chisq (Some 0))"
proof -
  have "chisq x y sigma model p False =
          Inr (Chisq (Some (\<Sum>i<length y. ((y ! i - the (map Some y ! i)) / sigma ! i) ^ 2)))"
    using chisq_equal_lengths[of model x p "map Some y" y sigma False, OF assms(1)] assms(2,3)
    by (auto simp: Let_def)
  also have "(\<Sum>i<length y. ((y ! i - the (map Some y ! i)) / sigma ! i) ^ 2) = 0"
    by simp
  finally show ?thesis .
qed

text \<open>The theorem at two points that the model \<open>y = 2 x\<close> fits exactly.\<close>

theorem chisq_exact_fit_is_zero_witness:
  "chisq [1, 2] [2, 4] [1, 2] (\<lambda>x p. Inr (map (\<lambda>v. Some (hd p * v)) x)) [2] False
     = Inr (Chisq (Some 0))"
  using chisq_exact_fit_is_zero[of "\<lambda>x p. Inr (map (\<lambda>v. Some (hd p * v)) x)"
          "[1, 2]" "[2]" "[2, 4]" "[1, 2]"]
  by simp

subsection \<open>The smooth and the sharp broken power law\<close>

lemma model_simple_bpl_value:
  "model_simple_bpl x T F alpha1 alpha2 = Some (F - (if x < T then alpha1 else alpha2) * (x - T))"
  by (simp add: model_simple_bpl_eq model_simple_bpl_before_log model_simple_bpl_after_log)

lemma sharp_bpl_branches:
  "sharp_bpl_before = model_simple_bpl_before" "sharp_bpl_after = model_simple_bpl_after"
  by (simp_all add: fun_eq_iff sharp_bpl_before_def sharp_bpl_after_def
      model_simple_bpl_before_def model_simple_bpl_after_def)

lemma sharp_bpl_eq_model: "sharp_bpl x T F alpha1 alpha2 = model_simple_bpl x T F alpha1 alpha2"
  by (simp add: sharp_bpl_def model_simple_bpl_def sharp_bpl_branches)

lemma smooth_bpl_eq_model_alpha1_zero:
  "smooth_bpl x T F 0 alpha2 S = model_smooth_bpl x T F 0 alpha2 S"
  by (simp add: smooth_bpl_def model_smooth_bpl_def np_power_def mult.commute)

lemma model_smooth_bpl_value:
  assumes "S \<noteq> 0"
  shows "model_smooth_bpl x T F alpha1 alpha2 S =
           Some (F - log 10 (pow10 (S * (alpha1 * (x - T))) + pow10 (S * (alpha2 * (x - T)))) / S)"
proof -
  have a: "np_power (pow10 x / pow10 T) (S * alpha1) = Some (pow10 (S * (alpha1 * (x - T))))"
    by (simp add: pow10_div np_power_pow10 mult_ac)
  have b: "np_power (pow10 x / pow10 T) (S * alpha2) = Some (pow10 (S * (alpha2 * (x - T))))"
    by (simp add: pow10_div np_power_pow10 mult_ac)
  let ?s = "pow10 (S * (alpha1 * (x - T))) + pow10 (S * (alpha2 * (x - T)))"
  have pos: "0 < ?s"
    by (simp add: add_pos_pos)
  have c: "np_power ?s (- 1 / S) = Some (?s powr (- 1 / S))"
    using pos by (rule np_power_pos)
  have lg: "log 10 (pow10 F * ?s powr (- 1 / S)) = F - log 10 ?s / S"
    using pos by (simp add: log_mult log_powr)
  have p2: "0 < pow10 F * ?s powr (- 1 / S)"
    using pos by simp
  show ?thesis
    unfolding model_smooth_bpl_def Let_def a b
    using assms c lg p2 by (simp add: np_divide_def np_log10_def)
qed


lemma log_sum_pow10: "log 10 (pow10 P + pow10 Q) = Q + log 10 (1 + pow10 (P - Q))"
proof -
  have "pow10 P + pow10 Q = pow10 Q * (1 + pow10 (P - Q))"
    by (simp add: pow10_def powr_diff algebra_simps)
  moreover have "0 < 1 + pow10 (P - Q)"
    by (simp add: add_pos_pos)
  ultimately show ?thesis
    by (simp add: log_mult)
qed

lemma log_one_plus_pow10_pos: "0 < log 10 (1 + pow10 a)"
proof -
  have "1 < 1 + pow10 a" by simp
  then show ?thesis by (simp only: zero_less_log_cancel_iff) 
qed

lemma log_one_plus_pow10_le: "a \<le> 0 \<Longrightarrow> log 10 (1 + pow10 a) \<le> log 10 2"
proof -
  assume "a \<le> 0"
  then have "pow10 a \<le> pow10 0" by (simp only: pow10_le_iff)
  then have "1 + pow10 a \<le> 2" by (simp add: pow10_def)
  moreover have "0 < 1 + pow10 a" by (simp add: add_pos_pos)
  ultimately show ?thesis by simp
qed

lemma log_one_plus_pow10_mono: "a \<le> b \<Longrightarrow> log 10 (1 + pow10 a) \<le> log 10 (1 + pow10 b)"
proof -
  assume "a \<le> b"
  then have "1 + pow10 a \<le> 1 + pow10 b" by simp
  moreover have "0 < 1 + pow10 a" "0 < 1 + pow10 b" by (simp_all add: add_pos_pos)
  ultimately show ?thesis by simp
qed

lemma gap_strict_mono:
  assumes "0 < s1" "s1 < s2" "0 \<le> c"
  shows "log 10 (1 + pow10 (- (s2 * c))) / s2 < log 10 (1 + pow10 (- (s1 * c))) / s1"
proof -
  have "s1 * c \<le> s2 * c"
    using assms by (simp add: mult_right_mono)
  then have "log 10 (1 + pow10 (- (s2 * c))) \<le> log 10 (1 + pow10 (- (s1 * c)))"
    by (intro log_one_plus_pow10_mono) simp
  then have "log 10 (1 + pow10 (- (s2 * c))) / s2 \<le> log 10 (1 + pow10 (- (s1 * c))) / s2"
    using assms by (simp add: divide_right_mono)
  also have "\<dots> < log 10 (1 + pow10 (- (s1 * c))) / s1"
    using assms log_one_plus_pow10_pos[of "- (s1 * c)"]
    by (simp add: divide_strict_left_mono)
  finally show ?thesis .
qed

lemma gap_le:
  assumes "0 < s" "0 \<le> c"
  shows "log 10 (1 + pow10 (- (s * c))) / s \<le> log 10 2 / s"
proof -
  have "- (s * c) \<le> 0" using assms by simp
  then have "log 10 (1 + pow10 (- (s * c))) \<le> log 10 2"
    by (rule log_one_plus_pow10_le)
  then show ?thesis using assms by (simp add: divide_right_mono)
qed

lemma smooth_sharp_gap:
  assumes "(0 < S \<and> alpha1 \<le> alpha2) \<or> (S < 0 \<and> alpha2 \<le> alpha1)"
  shows "\<exists>b s. model_simple_bpl x T F alpha1 alpha2 = Some b
            \<and> model_smooth_bpl x T F alpha1 alpha2 S = Some s
            \<and> \<bar>s - b\<bar> = log 10 (1 + pow10 (- (\<bar>S\<bar> * (\<bar>alpha2 - alpha1\<bar> * \<bar>x - T\<bar>)))) / \<bar>S\<bar>"
proof -
  from assms have S0: "S \<noteq> 0" by auto
  define u where "u = x - T"
  define e where "e = (if x < T then alpha1 else alpha2) * u"
  define ot where "ot = (if x < T then alpha2 else alpha1) * u"
  define L where "L = log 10 (1 + pow10 (S * ot - S * e))"
  have Lpos: "0 < L" unfolding L_def by (rule log_one_plus_pow10_pos)
  have b: "model_simple_bpl x T F alpha1 alpha2 = Some (F - e)"
    by (simp add: model_simple_bpl_value e_def u_def)
  have sum: "pow10 (S * (alpha1 * u)) + pow10 (S * (alpha2 * u)) = pow10 (S * ot) + pow10 (S * e)"
    by (simp add: e_def ot_def)
  have s: "model_smooth_bpl x T F alpha1 alpha2 S = Some (F - (S * e + L) / S)"
    unfolding model_smooth_bpl_value[OF S0] u_def[symmetric] sum log_sum_pow10 L_def ..
  have diff: "(F - (S * e + L) / S) - (F - e) = - (L / S)"
    using S0 by (simp add: field_simps)
  have oe: "ot - e = (if x < T then alpha2 - alpha1 else alpha1 - alpha2) * (x - T)"
    by (simp add: ot_def e_def u_def algebra_simps)
  have aS: "\<bar>S\<bar> = (if 0 < S then S else - S)"
    by simp
  have aX: "\<bar>x - T\<bar> = (if x < T then - (x - T) else x - T)"
    by simp
  have aA: "\<bar>alpha2 - alpha1\<bar> = (if 0 < S then alpha2 - alpha1 else - (alpha2 - alpha1))"
    using assms by auto
  have "S * ot - S * e = S * (ot - e)"
    by (simp add: algebra_simps)
  also have "\<dots> = - (\<bar>S\<bar> * (\<bar>alpha2 - alpha1\<bar> * \<bar>x - T\<bar>))"
    unfolding oe aS aX aA by (simp add: algebra_simps)
  finally have expo: "S * ot - S * e = - (\<bar>S\<bar> * (\<bar>alpha2 - alpha1\<bar> * \<bar>x - T\<bar>))" .
  have "\<bar>(F - (S * e + L) / S) - (F - e)\<bar> = L / \<bar>S\<bar>"
    unfolding diff using Lpos by (simp add: abs_of_pos)
  with b s show ?thesis
    unfolding L_def expo by blast
qed


text \<open>
  With \<open>alpha1 = 0\<close> the first term of \<^verbatim>\<open>smooth_bpl\<close> is 1 whatever its base, so there
  \<^verbatim>\<open>models.py\<close> and \<^verbatim>\<open>model.py\<close> compute the same function; with another
  \<open>alpha1\<close> they differ, as at \<open>x = 1\<close>, \<open>T = F = 0\<close>, \<open>alpha1 = alpha2 = S = 1\<close>.
\<close>

lemma smooth_bpl_first_term_example:
  "smooth_bpl 1 0 0 1 1 1 = Some (- log 10 11) \<and> model_smooth_bpl 1 0 0 1 1 1 = Some (- log 10 20)"
proof
  have "log 10 (1 + pow10 1) = log 10 11"
    by (simp add: pow10_def)
  then show "smooth_bpl 1 0 0 1 1 1 = Some (- log 10 11)"
    by (simp add: smooth_bpl_def np_power_def np_divide_def np_log10_def pow10_def log_divide)
  have "pow10 1 + pow10 1 = 20"
    by (simp add: pow10_def)
  then have "log 10 (pow10 1 + pow10 1) = log 10 20"
    by (simp only:)
  then show "model_smooth_bpl 1 0 0 1 1 1 = Some (- log 10 20)"
    by (simp add: model_smooth_bpl_value)
qed

text \<open>
  Claim C5, as stated, has \<open>|smooth_bpl - sharp_bpl|\<close> shrink as \<open>|S|\<close> grows for every
  \<open>(T, F, alpha1, alpha2)\<close> and every \<open>x \<noteq> T\<close>. At \<open>x = 1\<close>, \<open>T = F = 0\<close>, \<open>alpha1 = 0\<close>,
  \<open>alpha2 = 1\<close> the difference is below 1 for \<open>S = 1\<close> and above 1 for \<open>S = -2\<close> and for
  \<open>S = -4\<close>: for negative \<open>S\<close> the smooth formula tends to the smaller of the two power laws,
  which here is not the one \<^verbatim>\<open>sharp_bpl\<close> selects after the break.
\<close>

theorem smooth_bpl_not_monotone_counterexample:
  "sharp_bpl 1 0 0 0 1 = Some (- 1)
   \<and> smooth_bpl 1 0 0 0 1 1 = Some (- log 10 11)
   \<and> smooth_bpl 1 0 0 0 1 (- 2) = Some (log 10 (101 / 100) / 2)
   \<and> smooth_bpl 1 0 0 0 1 (- 4) = Some (log 10 (10001 / 10000) / 4)
   \<and> \<bar>1 :: real\<bar> < \<bar>- 2\<bar>
   \<and> \<bar>- log 10 11 - (- 1)\<bar> < 1
   \<and> 1 < \<bar>log 10 (101 / 100) / 2 - (- 1)\<bar>
   \<and> 1 < \<bar>log 10 (10001 / 10000) / 4 - (- 1)\<bar>"
proof (intro conjI)
  show "sharp_bpl 1 0 0 0 1 = Some (- 1)"
    by (simp add: sharp_bpl_eq_model model_simple_bpl_value)
  have "pow10 0 + pow10 1 = 11"
    by (simp add: pow10_def)
  then have "log 10 (pow10 0 + pow10 1) = log 10 11"
    by (simp only:)
  then show "smooth_bpl 1 0 0 0 1 1 = Some (- log 10 11)"
    by (simp add: smooth_bpl_eq_model_alpha1_zero model_smooth_bpl_value)
  have "pow10 0 + pow10 (- 2) = 101 / 100"
    by (simp add: pow10_def powr_minus_divide)
  then have "log 10 (pow10 0 + pow10 (- 2)) = log 10 (101 / 100)"
    by (simp only:)
  then show "smooth_bpl 1 0 0 0 1 (- 2) = Some (log 10 (101 / 100) / 2)"
    by (simp add: smooth_bpl_eq_model_alpha1_zero model_smooth_bpl_value)
  have "pow10 0 + pow10 (- 4) = 10001 / 10000"
    by (simp add: pow10_def powr_minus_divide)
  then have "log 10 (pow10 0 + pow10 (- 4)) = log 10 (10001 / 10000)"
    by (simp only:)
  then show "smooth_bpl 1 0 0 0 1 (- 4) = Some (log 10 (10001 / 10000) / 4)"
    by (simp add: smooth_bpl_eq_model_alpha1_zero model_smooth_bpl_value)
  show "\<bar>1 :: real\<bar> < \<bar>- 2\<bar>" by simp
  have l1: "1 < log 10 (11 :: real)"
    using log_less_cancel_iff[of 10 10 11] by simp
  have "log 10 (11 :: real) < log 10 (10 ^ 2)"
    by (subst log_less_cancel_iff) simp_all
  also have "log 10 ((10 :: real) ^ 2) = 2"
    by (subst log_nat_power) simp_all
  finally have l2: "log 10 (11 :: real) < 2" .
  from l1 l2 show "\<bar>- log 10 11 - (- 1)\<bar> < (1 :: real)"
    by simp
  have "0 < log 10 (101 / 100 :: real)"
    by simp
  then show "1 < \<bar>log 10 (101 / 100) / 2 - (- 1 :: real)\<bar>"
    by simp
  have "0 < log 10 (10001 / 10000 :: real)"
    by simp
  then show "1 < \<bar>log 10 (10001 / 10000) / 4 - (- 1 :: real)\<bar>"
    by simp
qed

text \<open>
  Claim C5, amended: for \<open>S > 0\<close> with \<open>alpha1 \<le> alpha2\<close>, or \<open>S < 0\<close> with
  \<open>alpha2 \<le> alpha1\<close>, and the smooth formula with \<^verbatim>\<open>linX\<close> in both terms
  (\<^verbatim>\<open>_smooth_bpl\<close>; \<^verbatim>\<open>smooth_bpl\<close> of \<^verbatim>\<open>models.py\<close> is the same function when
  \<open>alpha1 = 0\<close>): at every \<open>x\<close> the distance to the sharp broken power law is strictly smaller
  at the \<open>S\<close> of larger magnitude and the same sign, and it is at most \<open>log10(2) / |S|\<close>, so it
  tends to 0.
\<close>

theorem smooth_bpl_gap_shrinks:
  assumes "(0 < S1 \<and> S1 < S2 \<and> alpha1 \<le> alpha2) \<or> (S2 < S1 \<and> S1 < 0 \<and> alpha2 \<le> alpha1)"
  shows "\<exists>b s1 s2.
           model_simple_bpl x T F alpha1 alpha2 = Some b
         \<and> model_smooth_bpl x T F alpha1 alpha2 S1 = Some s1
         \<and> model_smooth_bpl x T F alpha1 alpha2 S2 = Some s2
         \<and> \<bar>s1 - b\<bar>
             = log 10 (1 + pow10 (- (\<bar>S1\<bar> * (\<bar>alpha2 - alpha1\<bar> * \<bar>x - T\<bar>)))) / \<bar>S1\<bar>
         \<and> \<bar>s2 - b\<bar>
             = log 10 (1 + pow10 (- (\<bar>S2\<bar> * (\<bar>alpha2 - alpha1\<bar> * \<bar>x - T\<bar>)))) / \<bar>S2\<bar>
         \<and> \<bar>s2 - b\<bar> < \<bar>s1 - b\<bar>
         \<and> \<bar>s2 - b\<bar> \<le> log 10 2 / \<bar>S2\<bar>
         \<and> sharp_bpl x T F alpha1 alpha2 = Some b
         \<and> (if alpha1 = 0
              then smooth_bpl x T F alpha1 alpha2 S1 = Some s1
                 \<and> smooth_bpl x T F alpha1 alpha2 S2 = Some s2
              else True)"
proof -
  from assms have c1: "(0 < S1 \<and> alpha1 \<le> alpha2) \<or> (S1 < 0 \<and> alpha2 \<le> alpha1)"
    and c2: "(0 < S2 \<and> alpha1 \<le> alpha2) \<or> (S2 < 0 \<and> alpha2 \<le> alpha1)"
    and abs: "0 < \<bar>S1\<bar>" "\<bar>S1\<bar> < \<bar>S2\<bar>"
    by auto
  define c where "c = \<bar>alpha2 - alpha1\<bar> * \<bar>x - T\<bar>"
  have c0: "0 \<le> c" by (simp add: c_def)
  from smooth_sharp_gap[OF c1, of x T F] obtain b s1 where
    b: "model_simple_bpl x T F alpha1 alpha2 = Some b"
    and s1: "model_smooth_bpl x T F alpha1 alpha2 S1 = Some s1"
    and g1: "\<bar>s1 - b\<bar> = log 10 (1 + pow10 (- (\<bar>S1\<bar> * c))) / \<bar>S1\<bar>"
    unfolding c_def by blast
  from smooth_sharp_gap[OF c2, of x T F] b obtain s2 where
    s2: "model_smooth_bpl x T F alpha1 alpha2 S2 = Some s2"
    and g2: "\<bar>s2 - b\<bar> = log 10 (1 + pow10 (- (\<bar>S2\<bar> * c))) / \<bar>S2\<bar>"
    unfolding c_def by auto
  have lt: "\<bar>s2 - b\<bar> < \<bar>s1 - b\<bar>"
    unfolding g1 g2 using abs c0 by (rule gap_strict_mono)
  have le: "\<bar>s2 - b\<bar> \<le> log 10 2 / \<bar>S2\<bar>"
    unfolding g2 using abs c0 by (intro gap_le) simp_all
  have sh: "sharp_bpl x T F alpha1 alpha2 = Some b"
    by (simp add: sharp_bpl_eq_model b)
  have sm: "if alpha1 = 0
              then smooth_bpl x T F alpha1 alpha2 S1 = Some s1
                 \<and> smooth_bpl x T F alpha1 alpha2 S2 = Some s2
              else True"
    using s1 s2 by (auto simp: smooth_bpl_eq_model_alpha1_zero)
  from b s1 s2 g1[unfolded c_def] g2[unfolded c_def] lt le sh sm show ?thesis by blast
qed

text \<open>The theorem at \<open>x = 1\<close>, \<open>T = F = 0\<close>, \<open>alpha1 = 0\<close>, \<open>alpha2 = 1\<close>, from \<open>S = 1\<close> to \<open>S = 2\<close>.\<close>

theorem smooth_bpl_gap_shrinks_witness:
  "\<exists>b s1 s2.
       sharp_bpl 1 0 0 0 1 = Some b
     \<and> smooth_bpl 1 0 0 0 1 1 = Some s1
     \<and> smooth_bpl 1 0 0 0 1 2 = Some s2
     \<and> \<bar>s2 - b\<bar> < \<bar>s1 - b\<bar>
     \<and> \<bar>s2 - b\<bar> \<le> log 10 2 / 2"
proof -
  have h: "(0 < (1::real) \<and> (1::real) < 2 \<and> (0::real) \<le> 1)
         \<or> ((2::real) < 1 \<and> (1::real) < 0 \<and> (1::real) \<le> 0)"
    by simp
  from smooth_bpl_gap_shrinks[OF h, of 1 0 0] show ?thesis
    by auto
qed

end
